theory Spec2Isabelle
  imports Complex_Main "HOL-Library.Sublist"
begin

text \<open>
  A shallow embedding of \<^verbatim>\<open>csv_processor.py\<close>: the condition parser \<^verbatim>\<open>parse_condition\<close>,
  the row filter \<^verbatim>\<open>apply_filter\<close> and the aggregator \<^verbatim>\<open>apply_aggregation\<close>, together with
  the Python built-ins they call (\<^verbatim>\<open>float\<close>, the comparisons, \<^verbatim>\<open>sum\<close>, \<^verbatim>\<open>min\<close>, \<^verbatim>\<open>max\<close>,
  \<^verbatim>\<open>round\<close>), followed by the properties of the three functions.
\<close>

section \<open>Exceptions and strings\<close>

text \<open>
  The functions of \<^verbatim>\<open>csv_processor.py\<close> signal failure by raising Python exceptions.
  A result is a value of \<open>py_error + 'a\<close>: \<open>Inl\<close> carries the exception that leaves the
  function, \<open>Inr\<close> the value it returns. \<open>ValueError\<close> carries its message, because the
  program composes it; \<open>KeyError\<close> carries the missing key. A Python string is modelled
  by the list of its UTF-8 bytes.
\<close>

datatype py_error =
    ValueError string
  | KeyError string
  | TypeError
  | ZeroDivisionError

text \<open>
  \<^verbatim>\<open>s.find(sub)\<close>: the index of the leftmost occurrence of \<open>sub\<close> in \<open>s\<close>, if any;
  \<^verbatim>\<open>sub in s\<close>; and \<^verbatim>\<open>s.split(sep, 1)\<close> for a non-empty separator, which cuts \<open>s\<close> at the
  leftmost occurrence of \<open>sep\<close> and returns \<open>s\<close> alone when there is none.
\<close>

fun str_find :: "string \<Rightarrow> string \<Rightarrow> nat option" where
  "str_find sub [] = (if sub = [] then Some 0 else None)"
| "str_find sub (c # cs) =
     (if prefix sub (c # cs) then Some 0 else map_option Suc (str_find sub cs))"

definition str_contains :: "string \<Rightarrow> string \<Rightarrow> bool" where
  "str_contains sub s = (str_find sub s \<noteq> None)"

definition split_once :: "string \<Rightarrow> string \<Rightarrow> string list" where
  "split_once sep s =
     (case str_find sep s of
        None \<Rightarrow> [s]
      | Some i \<Rightarrow> [take i s, drop (i + length sep) s])"

section \<open>Python floats\<close>

text \<open>
  A Python \<^verbatim>\<open>float\<close> is an IEEE 754 binary64 value. \<open>Finite s m e\<close> is the finite value
  \<open>m \<times> 2 ^ e\<close>, negative when the sign bit \<open>s\<close> is set, in the form the format stores it:
  \<open>m < 2 ^ 53\<close>, \<open>-1074 \<le> e \<le> 971\<close>, and \<open>e = -1074\<close> whenever \<open>m < 2 ^ 52\<close> (zero and the
  subnormal numbers). Both zeros exist. \<open>Infinity s\<close> is the infinity of sign \<open>s\<close>.
\<close>

datatype pyfloat = Finite bool nat int | Infinity bool | NaN

text \<open>\<^verbatim>\<open>int.bit_length\<close>: the number of binary digits of \<open>n\<close>.\<close>

function bit_length :: "nat \<Rightarrow> nat" where
  "bit_length n = (if n = 0 then 0 else Suc (bit_length (n div 2)))"
  by pat_completeness auto
termination
  by (relation "measure id") auto

declare bit_length.simps [simp del]

text \<open>The integer nearest to \<open>p / q\<close>, a tie going to the even one.\<close>

definition round_half_even :: "nat \<Rightarrow> nat \<Rightarrow> nat" where
  "round_half_even p q =
     (let d = p div q; r = p mod q
      in if 2 * r < q then d
         else if q < 2 * r then d + 1
         else if even d then d else d + 1)"

text \<open>\<open>scale2 p q k\<close> is a fraction equal to \<open>(p / q) / 2 ^ k\<close>.\<close>

definition scale2 :: "nat \<Rightarrow> nat \<Rightarrow> int \<Rightarrow> nat \<times> nat" where
  "scale2 p q k = (if 0 \<le> k then (p, q * 2 ^ nat k) else (p * 2 ^ nat (- k), q))"

text \<open>
  Rounding to binary64, to nearest with ties to even, as every IEEE operation and the
  conversion of a decimal literal do: \<open>round_ratio s p q e\<close> is the float of sign \<open>s\<close>
  nearest to \<open>(p / q) \<times> 2 ^ e\<close>, for \<open>q > 0\<close>. Dividing \<open>p / q\<close> by \<open>2 ^ e1\<close> brings it
  into the range from \<open>2 ^ 52\<close> to \<open>2 ^ 53\<close> of a full significand; the exponent of the
  result is not allowed below \<open>-1074\<close> (gradual underflow), and a result beyond the largest
  finite float is an infinity.
\<close>

definition round_ratio :: "bool \<Rightarrow> nat \<Rightarrow> nat \<Rightarrow> int \<Rightarrow> pyfloat" where
  "round_ratio s p q e =
     (if p = 0 then Finite s 0 (- 1074)
      else
        let e0 = int (bit_length p) - int (bit_length q) - 53;
            e1 = (case scale2 p q e0 of (a, b) \<Rightarrow> if a < b * 2 ^ 53 then e0 else e0 + 1);
            ex = max (e1 + e) (- 1074);
            n = (case scale2 p q (ex - e) of (a, b) \<Rightarrow> round_half_even a b)
        in if n = 2 ^ 53 then (if 971 < ex + 1 then Infinity s else Finite s (2 ^ 52) (ex + 1))
           else (if 971 < ex then Infinity s else Finite s n ex))"

text \<open>
  Comparison of floats (\<^verbatim>\<open>==\<close>, \<^verbatim>\<open><\<close>, \<^verbatim>\<open>>\<close>). \<open>NaN\<close> is unordered and unequal to
  everything, itself included; the two zeros are equal. Two finite floats are compared
  as the signed integers they are multiples of, at the smaller of the two exponents.
\<close>

definition signed :: "bool \<Rightarrow> nat \<Rightarrow> int" where
  "signed s m = (if s then - int m else int m)"

definition aligned :: "bool \<Rightarrow> nat \<Rightarrow> int \<Rightarrow> int \<Rightarrow> int" where
  "aligned s m e e' = signed s m * 2 ^ nat (e - e')"

fun float_eq :: "pyfloat \<Rightarrow> pyfloat \<Rightarrow> bool" where
  "float_eq (Finite s1 m1 e1) (Finite s2 m2 e2) =
     (aligned s1 m1 e1 (min e1 e2) = aligned s2 m2 e2 (min e1 e2))"
| "float_eq (Infinity s1) (Infinity s2) = (s1 = s2)"
| "float_eq _ _ = False"

fun float_lt :: "pyfloat \<Rightarrow> pyfloat \<Rightarrow> bool" where
  "float_lt (Finite s1 m1 e1) (Finite s2 m2 e2) =
     (aligned s1 m1 e1 (min e1 e2) < aligned s2 m2 e2 (min e1 e2))"
| "float_lt (Finite s1 m1 e1) (Infinity s2) = (\<not> s2)"
| "float_lt (Infinity s1) (Finite s2 m2 e2) = s1"
| "float_lt (Infinity s1) (Infinity s2) = (s1 \<and> \<not> s2)"
| "float_lt _ _ = False"

definition float_gt :: "pyfloat \<Rightarrow> pyfloat \<Rightarrow> bool" where
  "float_gt x y = float_lt y x"

definition float_ge :: "pyfloat \<Rightarrow> pyfloat \<Rightarrow> bool" where
  "float_ge x y = (float_lt y x \<or> float_eq x y)"

text \<open>
  Addition and division of floats: the exact result, rounded. Adding a zero returns the
  other operand; the sum of two zeros is \<open>-0.0\<close> only when both are, and two opposite
  non-zero numbers add to \<open>+0.0\<close>. Division is used with a non-zero divisor only
  (Python raises \<^verbatim>\<open>ZeroDivisionError\<close> before dividing by zero).
\<close>

fun float_add :: "pyfloat \<Rightarrow> pyfloat \<Rightarrow> pyfloat" where
  "float_add (Finite s1 m1 e1) (Finite s2 m2 e2) =
     (if m1 = 0 \<and> m2 = 0 then Finite (s1 \<and> s2) 0 (- 1074)
      else if m1 = 0 then Finite s2 m2 e2
      else if m2 = 0 then Finite s1 m1 e1
      else
        let e = min e1 e2; a = aligned s1 m1 e1 e + aligned s2 m2 e2 e
        in if a = 0 then Finite False 0 (- 1074)
           else round_ratio (a < 0) (nat \<bar>a\<bar>) 1 e)"
| "float_add (Finite s1 m1 e1) (Infinity s2) = Infinity s2"
| "float_add (Infinity s1) (Finite s2 m2 e2) = Infinity s1"
| "float_add (Infinity s1) (Infinity s2) = (if s1 = s2 then Infinity s1 else NaN)"
| "float_add _ _ = NaN"

text \<open>Negation and \<^verbatim>\<open>fabs\<close> change the sign bit only; \<open>x - y\<close> is \<open>x + (-y)\<close>.\<close>

fun float_neg :: "pyfloat \<Rightarrow> pyfloat" where
  "float_neg (Finite s m e) = Finite (\<not> s) m e"
| "float_neg (Infinity s) = Infinity (\<not> s)"
| "float_neg NaN = NaN"

fun float_abs :: "pyfloat \<Rightarrow> pyfloat" where
  "float_abs (Finite s m e) = Finite False m e"
| "float_abs (Infinity s) = Infinity False"
| "float_abs NaN = NaN"

definition float_sub :: "pyfloat \<Rightarrow> pyfloat \<Rightarrow> pyfloat" where
  "float_sub x y = float_add x (float_neg y)"

fun float_div :: "pyfloat \<Rightarrow> pyfloat \<Rightarrow> pyfloat" where
  "float_div (Finite s1 m1 e1) (Finite s2 m2 e2) = round_ratio (s1 \<noteq> s2) m1 m2 (e1 - e2)"
| "float_div (Finite s1 m1 e1) (Infinity s2) = Finite (s1 \<noteq> s2) 0 (- 1074)"
| "float_div (Infinity s1) (Finite s2 m2 e2) = Infinity (s1 \<noteq> s2)"
| "float_div _ _ = NaN"

text \<open>The conversion of a Python \<^verbatim>\<open>int\<close> (here a list length) to \<^verbatim>\<open>float\<close>.\<close>

definition float_of_nat :: "nat \<Rightarrow> pyfloat" where
  "float_of_nat n = round_ratio False n 1 0"

text \<open>
  \<^verbatim>\<open>round(x, 2)\<close>. CPython prints \<open>x\<close> with two digits after the decimal point, correctly
  rounded with ties to even on the exact binary value of \<open>x\<close>, and reads the decimal
  string back as the nearest float. An infinity or a NaN is returned unchanged.
\<close>

fun round2 :: "pyfloat \<Rightarrow> pyfloat" where
  "round2 (Finite s m e) =
     (case scale2 (100 * m) 1 (- e) of (a, b) \<Rightarrow> round_ratio s (round_half_even a b) 100 0)"
| "round2 x = x"

section \<open>Parsing a float: the built-in \<^verbatim>\<open>float(str)\<close>\<close>

text \<open>
  \<^verbatim>\<open>float(s)\<close> strips surrounding whitespace, accepts single underscores between digits,
  and then reads an optional sign followed by a decimal number (digits with an optional
  point and an optional exponent, at least one digit before the exponent) or by
  \<^verbatim>\<open>inf\<close>, \<^verbatim>\<open>infinity\<close> or \<^verbatim>\<open>nan\<close> in any letter case. The value of a decimal number is
  the float nearest to it; a number too large becomes an infinity. On any other string
  \<^verbatim>\<open>float\<close> raises \<^verbatim>\<open>ValueError\<close>, which is the result \<open>None\<close> here.
  The digits and the whitespace recognised are the ASCII ones (\<^verbatim>\<open>float\<close> also reads the
  decimal digits and the whitespace of other scripts, which lie outside this model). The
  proofs of the general theorems below never unfold \<open>py_float\<close>; it is evaluated on the
  literals of the examples only.
\<close>

definition is_space :: "char \<Rightarrow> bool" where
  "is_space c = (of_char c \<in> {9, 10, 11, 12, 13, 32 :: nat})"

definition strip :: "string \<Rightarrow> string" where
  "strip s = rev (dropWhile is_space (rev (dropWhile is_space s)))"

definition is_digit :: "char \<Rightarrow> bool" where
  "is_digit c = (c \<in> set ''0123456789'')"

definition digit_val :: "char \<Rightarrow> nat" where
  "digit_val c = of_char c - 48"

definition digits_val :: "string \<Rightarrow> nat" where
  "digits_val ds = foldl (\<lambda>n c. 10 * n + digit_val c) 0 ds"

fun underscores_ok :: "char \<Rightarrow> string \<Rightarrow> bool" where
  "underscores_ok prev [] = (prev \<noteq> CHR ''_'')"
| "underscores_ok prev (c # cs) =
     ((if c = CHR ''_'' then is_digit prev else prev = CHR ''_'' \<longrightarrow> is_digit c) \<and>
      underscores_ok c cs)"

definition to_lower :: "char \<Rightarrow> char" where
  "to_lower c =
     (case map_of (zip ''ABCDEFGHIJKLMNOPQRSTUVWXYZ'' ''abcdefghijklmnopqrstuvwxyz'') c of
        Some l \<Rightarrow> l
      | None \<Rightarrow> c)"

fun take_sign :: "string \<Rightarrow> bool \<times> string" where
  "take_sign [] = (False, [])"
| "take_sign (c # cs) =
     (if c = CHR ''-'' then (True, cs) else if c = CHR ''+'' then (False, cs)
      else (False, c # cs))"

definition parse_exponent :: "string \<Rightarrow> int option" where
  "parse_exponent s =
     (case take_sign s of
        (neg, ds) \<Rightarrow>
          if ds \<noteq> [] \<and> list_all is_digit ds
          then Some (if neg then - int (digits_val ds) else int (digits_val ds))
          else None)"

text \<open>
  \<open>parse_decimal s = Some (neg, d, k)\<close> when \<open>s\<close> is a decimal number of magnitude
  \<open>d \<times> 10 ^ k\<close>, with a minus sign when \<open>neg\<close> holds.
\<close>

definition parse_decimal :: "string \<Rightarrow> (bool \<times> nat \<times> int) option" where
  "parse_decimal s =
     (case take_sign s of
        (neg, s1) \<Rightarrow>
          let ip = takeWhile is_digit s1;
              r1 = dropWhile is_digit s1;
              fp = (case r1 of c # t \<Rightarrow> if c = CHR ''.'' then takeWhile is_digit t else [] | [] \<Rightarrow> []);
              r2 = (case r1 of c # t \<Rightarrow> if c = CHR ''.'' then dropWhile is_digit t else r1 | [] \<Rightarrow> [])
          in if ip = [] \<and> fp = [] then None
             else
               (case r2 of
                  [] \<Rightarrow> Some (neg, digits_val (ip @ fp), - int (length fp))
                | c # t \<Rightarrow>
                    if c = CHR ''e'' \<or> c = CHR ''E'' then
                      (case parse_exponent t of
                         Some x \<Rightarrow> Some (neg, digits_val (ip @ fp), x - int (length fp))
                       | None \<Rightarrow> None)
                    else None))"

definition parse_inf_or_nan :: "string \<Rightarrow> pyfloat option" where
  "parse_inf_or_nan s =
     (case take_sign s of
        (neg, s1) \<Rightarrow>
          let w = map to_lower s1
          in if w = ''inf'' \<or> w = ''infinity'' then Some (Infinity neg)
             else if w = ''nan'' then Some NaN
             else None)"

definition py_float :: "string \<Rightarrow> pyfloat option" where
  "py_float val =
     (let s = strip val
      in if \<not> underscores_ok (CHR 0x00) s then None
         else
           let t = filter (\<lambda>c. c \<noteq> CHR ''_'') s
           in case parse_decimal t of
                Some (neg, d, k) \<Rightarrow>
                  Some (if 0 \<le> k then round_ratio neg (d * 10 ^ nat k) 1 0
                        else round_ratio neg d (10 ^ nat (- k)) 0)
              | None \<Rightarrow> parse_inf_or_nan t)"

section \<open>The condition parser\<close>

text \<open>
  \<^verbatim>\<open>
  def parse_condition(condition):
      operators = ['>=', '<=', '!=', '=', '>', '<']
      for op in operators:
          if op in condition:
              parts = condition.split(op, 1)
              if len(parts) == 2:
                  return parts[0], op, parts[1]
      raise ValueError(f"Invalid condition format: {condition}")
  \<close>
\<close>

definition operator_priority :: "string list" where
  "operator_priority = [''>='', ''<='', ''!='', ''='', ''>'', ''<'']"

fun parse_loop :: "string list \<Rightarrow> string \<Rightarrow> py_error + (string \<times> string \<times> string)" where
  "parse_loop [] condition = Inl (ValueError (''Invalid condition format: '' @ condition))"
| "parse_loop (op # ops) condition =
     (if str_contains op condition then
        (case split_once op condition of
           [p0, p1] \<Rightarrow> Inr (p0, op, p1)
         | _ \<Rightarrow> parse_loop ops condition)
      else parse_loop ops condition)"

definition parse_condition :: "string \<Rightarrow> py_error + (string \<times> string \<times> string)" where
  "parse_condition condition = parse_loop operator_priority condition"

section \<open>The row filter\<close>

text \<open>
  A row is a \<^verbatim>\<open>Dict[str, str]\<close>: a finite map from column names to cell texts. The
  coerced form of a cell or of the literal is a \<^verbatim>\<open>Union[float, str]\<close>.
\<close>

type_synonym row = "string \<rightharpoonup> string"

datatype pyval = Num pyfloat | Str string

text \<open>
  \<^verbatim>\<open>
  def try_convert(val):
      try:
          return float(val)
      except ValueError:
          return val
  \<close>
\<close>

definition try_convert :: "string \<Rightarrow> pyval" where
  "try_convert val = (case py_float val of Some f \<Rightarrow> Num f | None \<Rightarrow> Str val)"

text \<open>
  Python orders two strings lexicographically by code point, which is the order of their
  UTF-8 bytes.
\<close>

fun str_lt :: "string \<Rightarrow> string \<Rightarrow> bool" where
  "str_lt [] [] = False"
| "str_lt [] (y # ys) = True"
| "str_lt (x # xs) [] = False"
| "str_lt (x # xs) (y # ys) =
     (if x = y then str_lt xs ys else (of_char x :: nat) < of_char y)"

text \<open>
  The three entries of the \<^verbatim>\<open>operators\<close> table, \<^verbatim>\<open>lambda x, y: x == y\<close>,
  \<^verbatim>\<open>lambda x, y: x > y\<close> and \<^verbatim>\<open>lambda x, y: x < y\<close>, on the values \<^verbatim>\<open>try_convert\<close>
  produces. A float and a string are never equal; ordering a float against a string
  raises \<^verbatim>\<open>TypeError\<close>.
\<close>

fun py_eq :: "pyval \<Rightarrow> pyval \<Rightarrow> py_error + bool" where
  "py_eq (Num x) (Num y) = Inr (float_eq x y)"
| "py_eq (Str x) (Str y) = Inr (x = y)"
| "py_eq (Num x) (Str y) = Inr False"
| "py_eq (Str x) (Num y) = Inr False"

fun py_gt :: "pyval \<Rightarrow> pyval \<Rightarrow> py_error + bool" where
  "py_gt (Num x) (Num y) = Inr (float_gt x y)"
| "py_gt (Str x) (Str y) = Inr (str_lt y x)"
| "py_gt (Num x) (Str y) = Inl TypeError"
| "py_gt (Str x) (Num y) = Inl TypeError"

fun py_lt :: "pyval \<Rightarrow> pyval \<Rightarrow> py_error + bool" where
  "py_lt (Num x) (Num y) = Inr (float_lt x y)"
| "py_lt (Str x) (Str y) = Inr (str_lt x y)"
| "py_lt (Num x) (Str y) = Inl TypeError"
| "py_lt (Str x) (Num y) = Inl TypeError"

definition operators :: "string \<rightharpoonup> (pyval \<Rightarrow> pyval \<Rightarrow> py_error + bool)" where
  "operators = [''='' \<mapsto> py_eq, ''>'' \<mapsto> py_gt, ''<'' \<mapsto> py_lt]"

text \<open>
  \<^verbatim>\<open>
  def apply_filter(rows, column, operator, value):
      ...
      if operator not in operators:
          raise ValueError(f"Unsupported operator: {operator}")
      op_func = operators[operator]
      filtered_rows = []
      for row in rows:
          row_val = try_convert(row[column])
          cmp_val = try_convert(value)
          if op_func(row_val, cmp_val):
              filtered_rows.append(row)
      return filtered_rows
  \<close>
  \<open>filter_loop\<close> is the \<^verbatim>\<open>for\<close> loop, with \<open>filtered_rows\<close> as its state; \<^verbatim>\<open>row[column]\<close>
  raises \<^verbatim>\<open>KeyError\<close> on a row without the column.
\<close>

fun filter_loop ::
  "(pyval \<Rightarrow> pyval \<Rightarrow> py_error + bool) \<Rightarrow> string \<Rightarrow> string \<Rightarrow> row list \<Rightarrow> row list
    \<Rightarrow> py_error + row list" where
  "filter_loop op_func column val [] filtered_rows = Inr filtered_rows"
| "filter_loop op_func column val (row # rows) filtered_rows =
     (case row column of
        None \<Rightarrow> Inl (KeyError column)
      | Some cell \<Rightarrow>
          (case op_func (try_convert cell) (try_convert val) of
             Inl e \<Rightarrow> Inl e
           | Inr b \<Rightarrow>
               filter_loop op_func column val rows
                 (if b then filtered_rows @ [row] else filtered_rows)))"

definition apply_filter :: "row list \<Rightarrow> string \<Rightarrow> string \<Rightarrow> string \<Rightarrow> py_error + row list" where
  "apply_filter rows column operator val =
     (case operators operator of
        None \<Rightarrow> Inl (ValueError (''Unsupported operator: '' @ operator))
      | Some op_func \<Rightarrow> filter_loop op_func column val rows [])"

section \<open>The aggregator\<close>

text \<open>
  The built-ins the \<^verbatim>\<open>operations\<close> table uses: \<^verbatim>\<open>sum\<close>, \<^verbatim>\<open>len\<close>, \<^verbatim>\<open>min\<close> and \<^verbatim>\<open>max\<close>. Two of
  their behaviours depend on the version of CPython that runs the program, which the
  functions below take as a parameter: how \<^verbatim>\<open>sum\<close> adds floats, and the wording of the
  \<^verbatim>\<open>ValueError\<close> of \<^verbatim>\<open>min\<close> and \<^verbatim>\<open>max\<close> on an empty list.
\<close>

datatype py_version = Before_3_12 | Since_3_12

text \<open>
  \<^verbatim>\<open>sum\<close> starts from the integer \<open>0\<close>, which adds to a float like \<open>+0.0\<close>. Before
  Python 3.12 it adds the floats from left to right, each addition rounded. Since
  Python 3.12 it also accumulates the rounding error of each addition in a compensation
  \<open>c\<close> (Neumaier's summation), which it adds to the total at the end when \<open>c\<close> is non-zero
  and finite:
  \<^verbatim>\<open>
      double t = f_result + x;
      if (fabs(f_result) >= fabs(x)) c += (f_result - t) + x;
      else                           c += (x - t) + f_result;
      f_result = t;
  \<close>
\<close>

fun compensated_sum :: "pyfloat \<Rightarrow> pyfloat \<Rightarrow> pyfloat list \<Rightarrow> pyfloat" where
  "compensated_sum f_result c [] =
     (case c of
        Finite s m e \<Rightarrow> if m \<noteq> 0 then float_add f_result c else f_result
      | _ \<Rightarrow> f_result)"
| "compensated_sum f_result c (x # xs) =
     (let t = float_add f_result x
      in compensated_sum t
           (float_add c
              (if float_ge (float_abs f_result) (float_abs x)
               then float_add (float_sub f_result t) x
               else float_add (float_sub x t) f_result))
           xs)"

fun py_sum :: "py_version \<Rightarrow> pyfloat list \<Rightarrow> pyfloat" where
  "py_sum Before_3_12 x = foldl float_add (Finite False 0 (- 1074)) x"
| "py_sum Since_3_12 [] = Finite False 0 (- 1074)"
| "py_sum Since_3_12 (v # vs) =
     compensated_sum (float_add (Finite False 0 (- 1074)) v) (Finite False 0 (- 1074)) vs"

text \<open>
  \<^verbatim>\<open>lambda x: sum(x) / len(x)\<close> raises \<^verbatim>\<open>ZeroDivisionError\<close> when the list is empty. \<^verbatim>\<open>min\<close>
  and \<^verbatim>\<open>max\<close> raise \<^verbatim>\<open>ValueError\<close> on an empty list; otherwise they keep the first element
  and replace it by a later one that is smaller (for \<^verbatim>\<open>max\<close>: greater) by \<^verbatim>\<open><\<close> (\<^verbatim>\<open>>\<close>).
\<close>

definition avg :: "py_version \<Rightarrow> pyfloat list \<Rightarrow> py_error + pyfloat" where
  "avg ver x =
     (if length x = 0 then Inl ZeroDivisionError
      else Inr (float_div (py_sum ver x) (float_of_nat (length x))))"

fun empty_message :: "py_version \<Rightarrow> string \<Rightarrow> string" where
  "empty_message Before_3_12 name = name @ ''() arg is an empty sequence''"
| "empty_message Since_3_12 name = name @ ''() iterable argument is empty''"

fun py_min :: "py_version \<Rightarrow> pyfloat list \<Rightarrow> py_error + pyfloat" where
  "py_min ver [] = Inl (ValueError (empty_message ver ''min''))"
| "py_min ver (v # vs) = Inr (foldl (\<lambda>m item. if float_lt item m then item else m) v vs)"

fun py_max :: "py_version \<Rightarrow> pyfloat list \<Rightarrow> py_error + pyfloat" where
  "py_max ver [] = Inl (ValueError (empty_message ver ''max''))"
| "py_max ver (v # vs) = Inr (foldl (\<lambda>m item. if float_gt item m then item else m) v vs)"

definition operations ::
  "py_version \<Rightarrow> string \<rightharpoonup> (pyfloat list \<Rightarrow> py_error + pyfloat)" where
  "operations ver = [''avg'' \<mapsto> avg ver, ''min'' \<mapsto> py_min ver, ''max'' \<mapsto> py_max ver]"

text \<open>
  \<^verbatim>\<open>
  def apply_aggregation(rows, column, operation):
      ...
      if operation not in operations:
          raise ValueError(f"Unsupported operation: {operation}")
      try:
          values = [float(row[column]) for row in rows]
      except ValueError:
          raise ValueError(f"Cannot aggregate non-numeric column: {column}")
      result = operations[operation](values)
      return {'operation': operation, 'column': column, 'value': round(result, 2)}
  \<close>
  \<open>float_column\<close> is the list comprehension inside its \<^verbatim>\<open>try\<close>: the \<^verbatim>\<open>ValueError\<close> of
  \<^verbatim>\<open>float\<close> is replaced by the program's own, the \<^verbatim>\<open>KeyError\<close> of \<^verbatim>\<open>row[column]\<close> is not
  caught.
\<close>

record aggregate_result =
  res_operation :: string
  res_column :: string
  res_value :: pyfloat

fun float_column :: "string \<Rightarrow> row list \<Rightarrow> py_error + pyfloat list" where
  "float_column column [] = Inr []"
| "float_column column (row # rows) =
     (case row column of
        None \<Rightarrow> Inl (KeyError column)
      | Some cell \<Rightarrow>
          (case py_float cell of
             None \<Rightarrow> Inl (ValueError (''Cannot aggregate non-numeric column: '' @ column))
           | Some f \<Rightarrow>
               (case float_column column rows of
                  Inl e \<Rightarrow> Inl e
                | Inr fs \<Rightarrow> Inr (f # fs))))"

definition apply_aggregation ::
  "py_version \<Rightarrow> row list \<Rightarrow> string \<Rightarrow> string \<Rightarrow> py_error + aggregate_result" where
  "apply_aggregation ver rows column operation =
     (case operations ver operation of
        None \<Rightarrow> Inl (ValueError (''Unsupported operation: '' @ operation))
      | Some f \<Rightarrow>
          (case float_column column rows of
             Inl e \<Rightarrow> Inl e
           | Inr vals \<Rightarrow>
               (case f vals of
                  Inl e \<Rightarrow> Inl e
                | Inr result \<Rightarrow>
                    Inr \<lparr>res_operation = operation, res_column = column,
                         res_value = round2 result\<rparr>)))"

section \<open>The table of the test suite\<close>

text \<open>
  The rows \<^verbatim>\<open>read_csv\<close> returns for the fixture \<^verbatim>\<open>sample_csv\<close> of
  \<^verbatim>\<open>test_csv_processor.py\<close>, used as the concrete input of the examples below.
\<close>

definition product1 :: row where
  "product1 = [''name'' \<mapsto> ''Product1'', ''price'' \<mapsto> ''100'', ''rating'' \<mapsto> ''4.5'']"

definition product2 :: row where
  "product2 = [''name'' \<mapsto> ''Product2'', ''price'' \<mapsto> ''200'', ''rating'' \<mapsto> ''4.8'']"

definition product3 :: row where
  "product3 = [''name'' \<mapsto> ''Product3'', ''price'' \<mapsto> ''300'', ''rating'' \<mapsto> ''4.2'']"

definition sample_rows :: "row list" where
  "sample_rows = [product1, product2, product3]"

section \<open>Properties of the condition parser\<close>





lemma split_once_found:
  "str_find sep s = Some i \<Longrightarrow> split_once sep s = [take i s, drop (i + length sep) s]"
  by (simp add: split_once_def)





section \<open>Evaluating floats\<close>

text \<open>
  The floats of the examples, computed by the definitions above. \<open>float_eval\<close> unfolds the
  parser and the rounding on a literal, \<open>round_eval\<close> the rounding alone.
\<close>

lemmas float_eval = py_float_def strip_def is_space_def underscores_ok.simps is_digit_def
  parse_decimal_def parse_exponent_def parse_inf_or_nan_def to_lower_def digits_val_def digit_val_def
  round_ratio_def scale2_def round_half_even_def bit_length.simps Let_def

lemmas round_eval = round_ratio_def scale2_def round_half_even_def bit_length.simps Let_def

subsection \<open>The literals\<close>

lemma py_float_100: "py_float ''100'' = Some (Finite False 7036874417766400 (- 46))"
  by (simp add: float_eval)

lemma py_float_150: "py_float ''150'' = Some (Finite False 5277655813324800 (- 45))"
  by (simp add: float_eval)

lemma py_float_200: "py_float ''200'' = Some (Finite False 7036874417766400 (- 45))"
  by (simp add: float_eval)

lemma py_float_300: "py_float ''300'' = Some (Finite False 5277655813324800 (- 44))"
  by (simp add: float_eval)

lemma py_float_100_0: "py_float ''100.0'' = Some (Finite False 7036874417766400 (- 46))"
  by (simp add: float_eval)

lemma py_float_1: "py_float ''1'' = Some (Finite False 4503599627370496 (- 52))"
  by (simp add: float_eval)

lemma py_float_4_5: "py_float ''4.5'' = Some (Finite False 5066549580791808 (- 50))"
  by (simp add: float_eval)

lemma py_float_4_8: "py_float ''4.8'' = Some (Finite False 5404319552844595 (- 50))"
  by (simp add: float_eval)

lemma py_float_4_2: "py_float ''4.2'' = Some (Finite False 4728779608739021 (- 50))"
  by (simp add: float_eval)

lemma py_float_nan: "py_float ''nan'' = Some NaN"
  by (simp add: float_eval)

lemma py_float_Product1: "py_float ''Product1'' = None"
  by (simp add: float_eval)

lemma py_float_x: "py_float ''x'' = None"
  by (simp add: float_eval)

lemma py_float_9: "py_float ''9'' = Some (Finite False 5066549580791808 (- 49))"
  by (simp add: float_eval)

lemma py_float_10: "py_float ''10'' = Some (Finite False 5629499534213120 (- 49))"
  by (simp add: float_eval)

lemma py_float_Product2: "py_float ''Product2'' = None"
  by (simp add: float_eval)

lemma py_float_Product3: "py_float ''Product3'' = None"
  by (simp add: float_eval)

subsection \<open>The sum and the mean of the ratings\<close>

text \<open>
  \<open>4.5 + 4.8\<close> is the float \<open>9.3\<close> and \<open>9.3 + 4.2\<close> the float \<open>13.5\<close>, each after a tie
  rounded to even; \<open>13.5 / 3\<close> is \<open>4.5\<close>, and rounding to two decimals leaves \<open>4.5\<close>, \<open>4.2\<close>
  and \<open>4.8\<close> as they are.
\<close>

lemma sum_4_5_4_8:
  "float_add (Finite False 5066549580791808 (- 50)) (Finite False 5404319552844595 (- 50)) =
   Finite False 5235434566818202 (- 49)"
  by (simp add: aligned_def signed_def, simp add: round_eval)

lemma sum_9_3_4_2:
  "float_add (Finite False 5235434566818202 (- 49)) (Finite False 4728779608739021 (- 50)) =
   Finite False 7599824371187712 (- 49)"
  by (simp add: aligned_def signed_def, simp add: round_eval)

lemma float_of_nat_3: "float_of_nat 3 = Finite False 6755399441055744 (- 51)"
  by (simp add: float_of_nat_def round_eval)

lemma div_13_5_3:
  "float_div (Finite False 7599824371187712 (- 49)) (Finite False 6755399441055744 (- 51)) =
   Finite False 5066549580791808 (- 50)"
  by (simp add: round_eval)

lemma round2_4_5:
  "round2 (Finite False 5066549580791808 (- 50)) = Finite False 5066549580791808 (- 50)"
  by (simp add: scale2_def round_half_even_def, simp add: round_eval)

lemma round2_4_2:
  "round2 (Finite False 4728779608739021 (- 50)) = Finite False 4728779608739021 (- 50)"
  by (simp add: scale2_def round_half_even_def, simp add: round_eval)

lemma round2_4_8:
  "round2 (Finite False 5404319552844595 (- 50)) = Finite False 5404319552844595 (- 50)"
  by (simp add: scale2_def round_half_even_def, simp add: round_eval)

text \<open>
  The compensated sum of the ratings: the two rounding errors, \<open>- 2 ^ - 50\<close> and
  \<open>2 ^ - 50\<close>, cancel, so the compensation is zero and the sum is \<open>13.5\<close> again.
\<close>

lemma sub_4_8_9_3:
  "float_sub (Finite False 5404319552844595 (- 50)) (Finite False 5235434566818202 (- 49)) =
   Finite True 5066549580791809 (- 50)"
  by (simp add: float_sub_def aligned_def signed_def, simp add: round_eval)

lemma add_error_4_5:
  "float_add (Finite True 5066549580791809 (- 50)) (Finite False 5066549580791808 (- 50)) =
   Finite True 4503599627370496 (- 102)"
  by (simp add: aligned_def signed_def, simp add: round_eval)

lemma sub_9_3_13_5:
  "float_sub (Finite False 5235434566818202 (- 49)) (Finite False 7599824371187712 (- 49)) =
   Finite True 4728779608739020 (- 50)"
  by (simp add: float_sub_def aligned_def signed_def, simp add: round_eval)

lemma add_error_4_2:
  "float_add (Finite True 4728779608739020 (- 50)) (Finite False 4728779608739021 (- 50)) =
   Finite False 4503599627370496 (- 102)"
  by (simp add: aligned_def signed_def, simp add: round_eval)

lemma errors_cancel:
  "float_add (Finite True 4503599627370496 (- 102)) (Finite False 4503599627370496 (- 102)) =
   Finite False 0 (- 1074)"
  by (simp add: aligned_def signed_def)

lemma ratings_plain_sum:
  "py_sum Before_3_12
     [Finite False 5066549580791808 (- 50), Finite False 5404319552844595 (- 50),
      Finite False 4728779608739021 (- 50)] = Finite False 7599824371187712 (- 49)"
proof -
  have "float_add (Finite False 0 (- 1074)) (Finite False 5066549580791808 (- 50)) =
    Finite False 5066549580791808 (- 50)" by simp
  then show ?thesis by (simp only: py_sum.simps foldl.simps sum_4_5_4_8 sum_9_3_4_2)
qed

lemma ratings_compensated_sum:
  "py_sum Since_3_12
     [Finite False 5066549580791808 (- 50), Finite False 5404319552844595 (- 50),
      Finite False 4728779608739021 (- 50)] = Finite False 7599824371187712 (- 49)"
proof -
  let ?z = "Finite False 0 (- 1074)"
  let ?a = "Finite False 5066549580791808 (- 50)"
  let ?b = "Finite False 5404319552844595 (- 50)"
  let ?c = "Finite False 4728779608739021 (- 50)"
  let ?t1 = "Finite False 5235434566818202 (- 49)"
  let ?t2 = "Finite False 7599824371187712 (- 49)"
  let ?c1 = "Finite True 4503599627370496 (- 102)"
  have start: "float_add ?z ?a = ?a" by simp
  have ge1: "\<not> float_ge (float_abs ?a) (float_abs ?b)"
    by (simp add: float_ge_def aligned_def signed_def)
  have ge2: "float_ge (float_abs ?t1) (float_abs ?c)"
    by (simp add: float_ge_def aligned_def signed_def)
  have c1: "float_add ?z ?c1 = ?c1" by simp
  have step1: "compensated_sum ?a ?z [?b, ?c] = compensated_sum ?t1 ?c1 [?c]"
    by (simp only: compensated_sum.simps Let_def sum_4_5_4_8 ge1 if_False sub_4_8_9_3
        add_error_4_5 c1)
  have step2: "compensated_sum ?t1 ?c1 [?c] = compensated_sum ?t2 ?z []"
    by (simp only: compensated_sum.simps Let_def sum_9_3_4_2 ge2 if_True sub_9_3_13_5
        add_error_4_2 errors_cancel)
  have stop: "compensated_sum ?t2 ?z [] = ?t2" by simp
  show ?thesis by (simp only: py_sum.simps start step1 step2 stop)
qed

subsection \<open>The literal 1e308 and its sum with itself\<close>

lemma bit_length_bounds: "2 ^ k \<le> n \<Longrightarrow> n < 2 ^ Suc k \<Longrightarrow> bit_length n = Suc k"
proof (induction k arbitrary: n)
  case 0
  then have "n = 1" by simp
  then show ?case by (simp add: bit_length.simps)
next
  case (Suc k)
  from Suc.prems have "2 ^ k \<le> n div 2" "n div 2 < 2 ^ Suc k" by auto
  then have "bit_length (n div 2) = Suc k" by (rule Suc.IH)
  moreover from Suc.prems have "n \<noteq> 0" by auto
  ultimately show ?case by (subst bit_length.simps) simp
qed

lemma bit_length_1: "bit_length 1 = 1"
  by (simp add: bit_length.simps)

lemma bit_length_1e308: "bit_length (10 ^ 308) = 1024"
proof -
  have "bit_length (10 ^ 308) = Suc 1023"
    by (rule bit_length_bounds) simp_all
  then show ?thesis by simp
qed

lemma py_float_1e308: "py_float ''1e308'' = Some (Finite False 5010420900022432 971)"
proof -
  have "py_float ''1e308'' = Some (round_ratio False (10 ^ 308) 1 0)"
    by (simp add: py_float_def strip_def is_space_def is_digit_def parse_decimal_def
        parse_exponent_def digits_val_def digit_val_def)
  moreover have "round_ratio False (10 ^ 308) 1 0 = Finite False 5010420900022432 971"
    unfolding round_ratio_def bit_length_1e308 bit_length_1
    by (simp add: scale2_def round_half_even_def Let_def)
  ultimately show ?thesis by simp
qed

lemma float_of_nat_2: "float_of_nat 2 = Finite False 4503599627370496 (- 51)"
  by (simp add: float_of_nat_def round_eval)

lemma sum_1e308_twice:
  "float_add (Finite False 5010420900022432 971) (Finite False 5010420900022432 971) =
   Infinity False"
  by (simp add: aligned_def signed_def, simp add: round_eval)

lemma overflow_plain_sum:
  "py_sum Before_3_12 [Finite False 5010420900022432 971, Finite False 5010420900022432 971] =
   Infinity False"
proof -
  have "float_add (Finite False 0 (- 1074)) (Finite False 5010420900022432 971) =
    Finite False 5010420900022432 971" by simp
  then show ?thesis by (simp only: py_sum.simps foldl.simps sum_1e308_twice)
qed

lemma overflow_compensated_sum:
  "py_sum Since_3_12 [Finite False 5010420900022432 971, Finite False 5010420900022432 971] =
   Infinity False"
proof -
  let ?z = "Finite False 0 (- 1074)"
  let ?x = "Finite False 5010420900022432 971"
  have start: "float_add ?z ?x = ?x" by simp
  have ge: "float_ge (float_abs ?x) (float_abs ?x)"
    by (simp add: float_ge_def aligned_def signed_def)
  have err: "float_add ?z (float_add (float_sub ?x (Infinity False)) ?x) = Infinity True"
    by (simp add: float_sub_def)
  have step: "compensated_sum ?x ?z [?x] = compensated_sum (Infinity False) (Infinity True) []"
    by (simp only: compensated_sum.simps Let_def sum_1e308_twice ge if_True err)
  have stop: "compensated_sum (Infinity False) (Infinity True) [] = Infinity False" by simp
  show ?thesis by (simp only: py_sum.simps start step stop)
qed

section \<open>Properties of the row filter\<close>

text \<open>
  The loop returns exactly when every row has the column and its cell compares with the
  literal without an exception; it then returns the accumulated rows followed by the rows
  on which the comparison is true, in their order. Rows that evaluate without an
  exception are passed over one by one, so the first row that raises decides the error.
\<close>

lemma filter_loop_Inr:
  "filter_loop f c v rows acc = Inr out \<longleftrightarrow>
     (\<forall>row \<in> set rows. \<exists>cell b. row c = Some cell \<and>
        f (try_convert cell) (try_convert v) = Inr b) \<and>
     out = acc @ filter (\<lambda>row. \<exists>cell. row c = Some cell \<and>
        f (try_convert cell) (try_convert v) = Inr True) rows"
proof (induction rows arbitrary: acc)
  case Nil
  then show ?case by auto
next
  case (Cons row rows)
  show ?case
  proof (cases "row c")
    case None
    then show ?thesis by simp
  next
    case (Some cell)
    show ?thesis
    proof (cases "f (try_convert cell) (try_convert v)")
      case (Inl e)
      with Some show ?thesis by simp
    next
      case (Inr b)
      from Some Inr have head_ok: "\<exists>cell b. row c = Some cell \<and>
        f (try_convert cell) (try_convert v) = Inr b" by simp
      from Some Inr have head_P: "(\<exists>cell. row c = Some cell \<and>
        f (try_convert cell) (try_convert v) = Inr True) \<longleftrightarrow> b" by simp
      have "filter_loop f c v (row # rows) acc =
        filter_loop f c v rows (if b then acc @ [row] else acc)"
        using Some Inr by simp
      then show ?thesis
        using Cons.IH [of "if b then acc @ [row] else acc"] head_ok head_P
        by (cases b) auto
    qed
  qed
qed

lemma filter_loop_first_error:
  "\<forall>r \<in> set pre. \<exists>cell b. r c = Some cell \<and> f (try_convert cell) (try_convert v) = Inr b \<Longrightarrow>
   filter_loop f c v (pre @ rows) acc =
     filter_loop f c v rows
       (acc @ filter (\<lambda>row. \<exists>cell. row c = Some cell \<and>
          f (try_convert cell) (try_convert v) = Inr True) pre)"
proof (induction pre arbitrary: acc)
  case Nil
  then show ?case by simp
next
  case (Cons r pre)
  from Cons.prems obtain cell b where rc: "r c = Some cell"
    "f (try_convert cell) (try_convert v) = Inr b" by auto
  from Cons.prems have rest: "\<forall>r \<in> set pre. \<exists>cell b. r c = Some cell \<and>
    f (try_convert cell) (try_convert v) = Inr b" by simp
  from rc Cons.IH [OF rest] show ?case by (cases b) simp_all
qed

lemma sample_price_gt_150:
  "apply_filter sample_rows ''price'' ''>'' ''150'' = Inr [product2, product3]"
proof -
  have c1: "product1 ''price'' = Some ''100''" by (simp add: product1_def)
  have c2: "product2 ''price'' = Some ''200''" by (simp add: product2_def)
  have c3: "product3 ''price'' = Some ''300''" by (simp add: product3_def)
  show ?thesis
    by (simp add: apply_filter_def operators_def sample_rows_def c1 c2 c3 try_convert_def
        py_float_100 py_float_150 py_float_200 py_float_300 float_gt_def aligned_def signed_def)
qed

text \<open>
  Claim C1 (the code departs from it). The condition parser recognises \<open>>=\<close>, \<open><=\<close> and
  \<open>!=\<close>, but the \<^verbatim>\<open>operators\<close> table of \<^verbatim>\<open>apply_filter\<close> holds \<open>=\<close>, \<open>>\<close> and \<open><\<close>
  only. On the operators the parser itself returns for \<^verbatim>\<open>price>=150\<close>, \<^verbatim>\<open>price<=150\<close> and
  \<^verbatim>\<open>price!=150\<close>, the filter raises the unsupported-operator \<^verbatim>\<open>ValueError\<close> instead of
  comparing, whatever the rows, the column and the literal are.
\<close>

theorem apply_filter_rejects_parsed_operators:
  "parse_condition ''price>=150'' = Inr (''price'', ''>='', ''150'') \<and>
   apply_filter rows column ''>='' val = Inl (ValueError ''Unsupported operator: >='') \<and>
   parse_condition ''price<=150'' = Inr (''price'', ''<='', ''150'') \<and>
   apply_filter rows column ''<='' val = Inl (ValueError ''Unsupported operator: <='') \<and>
   parse_condition ''price!=150'' = Inr (''price'', ''!='', ''150'') \<and>
   apply_filter rows column ''!='' val = Inl (ValueError ''Unsupported operator: !='')"
  by (simp add: parse_condition_def operator_priority_def str_contains_def split_once_def
      apply_filter_def operators_def)

text \<open>
  The comparison the loop makes on a row, spelled out: which operators the table holds,
  when the comparison of the coerced cell with the coerced literal raises nothing, and
  when it is true.
\<close>

lemma operators_Some:
  "operators operator = Some f \<longleftrightarrow>
     operator = ''='' \<and> f = py_eq \<or> operator = ''>'' \<and> f = py_gt \<or>
     operator = ''<'' \<and> f = py_lt"
  by (auto simp: operators_def)

lemma operators_None: "operators operator = None \<longleftrightarrow> operator \<notin> {''='', ''>'', ''<''}"
  by (auto simp: operators_def)

lemma compare_defined:
  assumes "operators operator = Some f"
  shows "(\<exists>b. f (try_convert cell) (try_convert val) = Inr b) \<longleftrightarrow>
    (operator = ''='' \<or> (py_float cell = None \<longleftrightarrow> py_float val = None))"
proof -
  from assms consider "operator = ''=''" "f = py_eq" | "operator = ''>''" "f = py_gt"
    | "operator = ''<''" "f = py_lt"
    unfolding operators_Some by blast
  then show ?thesis
  proof cases
    case 1
    then show ?thesis
      by (cases "py_float cell"; cases "py_float val") (auto simp: try_convert_def)
  next
    case 2
    then show ?thesis
      by (cases "py_float cell"; cases "py_float val") (auto simp: try_convert_def)
  next
    case 3
    then show ?thesis
      by (cases "py_float cell"; cases "py_float val") (auto simp: try_convert_def)
  qed
qed

lemma compare_true:
  assumes "operators operator = Some f"
  shows "f (try_convert cell) (try_convert val) = Inr True \<longleftrightarrow>
    (case (py_float cell, py_float val) of
       (Some x, Some y) \<Rightarrow>
         (if operator = ''='' then float_eq x y
          else if operator = ''>'' then float_gt x y else float_lt x y)
     | (None, None) \<Rightarrow>
         (if operator = ''='' then cell = val
          else if operator = ''>'' then str_lt val cell else str_lt cell val)
     | _ \<Rightarrow> False)"
proof -
  from assms consider "operator = ''=''" "f = py_eq" | "operator = ''>''" "f = py_gt"
    | "operator = ''<''" "f = py_lt"
    unfolding operators_Some by blast
  then show ?thesis
  proof cases
    case 1
    then show ?thesis
      by (cases "py_float cell"; cases "py_float val") (simp_all add: try_convert_def)
  next
    case 2
    then show ?thesis
      by (cases "py_float cell"; cases "py_float val") (simp_all add: try_convert_def)
  next
    case 3
    then show ?thesis
      by (cases "py_float cell"; cases "py_float val") (simp_all add: try_convert_def)
  qed
qed

text \<open>
  Claim C5. The filter returns a list exactly when the operator is one of \<open>=\<close>, \<open>>\<close> and
  \<open><\<close> (the \<^verbatim>\<open>operators\<close> table), every row has a cell at the column and, for \<open>>\<close> and
  \<open><\<close>, the cell and the literal either both parse as floats or both do not. The cell
  and the literal are coerced separately: each is a number when \<^verbatim>\<open>float\<close> parses it and
  its own text otherwise. What the filter returns is then the list of the rows, in their
  original order, on which the comparison is true: the comparison of the two floats when
  both parse, of the two texts when neither does, and false when only one does (the
  input list is a value and is not changed). On the table of the test suite,
  \<^verbatim>\<open>price > 150\<close> keeps the rows with prices 200 and 300, in that order; the cell \<open>9\<close> is
  not above the literal \<open>10\<close>, although the text \<open>9\<close> is above the text \<open>10\<close>; and names
  are compared as texts.
\<close>

theorem filter_subsequence:
  "apply_filter rows column operator val = Inr out \<longleftrightarrow>
     operator \<in> {''='', ''>'', ''<''} \<and>
     (\<forall>row \<in> set rows. \<exists>cell. row column = Some cell \<and>
        (operator = ''='' \<or> (py_float cell = None \<longleftrightarrow> py_float val = None))) \<and>
     out = filter (\<lambda>row. \<exists>cell. row column = Some cell \<and>
        (case (py_float cell, py_float val) of
           (Some x, Some y) \<Rightarrow>
             (if operator = ''='' then float_eq x y
              else if operator = ''>'' then float_gt x y else float_lt x y)
         | (None, None) \<Rightarrow>
             (if operator = ''='' then cell = val
              else if operator = ''>'' then str_lt val cell else str_lt cell val)
         | _ \<Rightarrow> False)) rows"
  (is "?L \<longleftrightarrow> ?M \<and> ?D \<and> out = filter ?C rows")
proof (cases "operators operator")
  case None
  then have "\<not> ?M" using operators_None [of operator] by blast
  moreover from None have "\<not> ?L" by (simp add: apply_filter_def)
  ultimately show ?thesis by blast
next
  case (Some f)
  define D0 where "D0 \<longleftrightarrow> (\<forall>row \<in> set rows. \<exists>cell b. row column = Some cell \<and>
    f (try_convert cell) (try_convert val) = Inr b)"
  define C0 where "C0 = (\<lambda>row. \<exists>cell. row column = Some cell \<and>
    f (try_convert cell) (try_convert val) = Inr True)"
  define D where "D \<longleftrightarrow> ?D"
  define C where "C = ?C"
  from Some have mem: ?M using operators_None [of operator] by fastforce
  have "(\<exists>cell b. row column = Some cell \<and>
      f (try_convert cell) (try_convert val) = Inr b) \<longleftrightarrow>
    (\<exists>cell. row column = Some cell \<and>
      (operator = ''='' \<or> (py_float cell = None \<longleftrightarrow> py_float val = None)))" for row
  proof (cases "row column")
    case None
    then show ?thesis by simp
  next
    case cell: (Some cell)
    show ?thesis
      unfolding cell using compare_defined [OF Some, of cell val] by simp
  qed
  then have defined: "D0 \<longleftrightarrow> D"
    unfolding D0_def D_def by (simp only:)
  have kept: "C0 = C"
    unfolding C0_def C_def by (rule ext) (simp only: compare_true [OF Some])
  from Some have run: "?L \<longleftrightarrow> D0 \<and> out = filter C0 rows"
    unfolding D0_def C0_def
    using filter_loop_Inr [of f column val rows "[]" out]
    by (simp only: apply_filter_def option.case append_Nil)
  from run defined kept mem have "?L \<longleftrightarrow> ?M \<and> D \<and> out = filter C rows" by simp
  then show ?thesis unfolding D_def C_def .
qed

theorem filter_subsequence_witness:
  "apply_filter sample_rows ''price'' ''>'' ''150'' = Inr [product2, product3] \<and>
   apply_filter sample_rows ''price'' ''<'' ''150'' = Inr [product1] \<and>
   apply_filter [[''price'' \<mapsto> ''9'']] ''price'' ''>'' ''10'' = Inr [] \<and>
   apply_filter [[''price'' \<mapsto> ''9'']] ''price'' ''<'' ''10'' = Inr [[''price'' \<mapsto> ''9'']] \<and>
   str_lt ''10'' ''9'' \<and>
   apply_filter sample_rows ''name'' ''='' ''Product2'' = Inr [product2] \<and>
   apply_filter sample_rows ''name'' ''>'' ''Product1'' = Inr [product2, product3] \<and>
   apply_filter sample_rows ''name'' ''<'' ''Product2'' = Inr [product1]"
proof -
  have price: "product1 ''price'' = Some ''100''" "product2 ''price'' = Some ''200''"
    "product3 ''price'' = Some ''300''"
    by (simp_all add: product1_def product2_def product3_def)
  have name: "product1 ''name'' = Some ''Product1''" "product2 ''name'' = Some ''Product2''"
    "product3 ''name'' = Some ''Product3''"
    by (simp_all add: product1_def product2_def product3_def)
  have gt: "apply_filter sample_rows ''price'' ''>'' ''150'' = Inr [product2, product3]"
    unfolding filter_subsequence
    by (simp add: sample_rows_def price py_float_100 py_float_150 py_float_200 py_float_300
        float_gt_def aligned_def signed_def)
  have lt: "apply_filter sample_rows ''price'' ''<'' ''150'' = Inr [product1]"
    unfolding filter_subsequence
    by (simp add: sample_rows_def price py_float_100 py_float_150 py_float_200 py_float_300
        float_gt_def aligned_def signed_def)
  have nine_gt: "apply_filter [[''price'' \<mapsto> ''9'']] ''price'' ''>'' ''10'' = Inr []"
    unfolding filter_subsequence
    by (simp add: py_float_9 py_float_10 float_gt_def aligned_def signed_def)
  have nine_lt: "apply_filter [[''price'' \<mapsto> ''9'']] ''price'' ''<'' ''10'' =
      Inr [[''price'' \<mapsto> ''9'']]"
    unfolding filter_subsequence
    by (simp add: py_float_9 py_float_10 float_gt_def aligned_def signed_def)
  have lex: "str_lt ''10'' ''9''" by simp
  have name_eq: "apply_filter sample_rows ''name'' ''='' ''Product2'' = Inr [product2]"
    unfolding filter_subsequence
    by (simp add: sample_rows_def name py_float_Product1 py_float_Product2 py_float_Product3)
  have name_gt: "apply_filter sample_rows ''name'' ''>'' ''Product1'' =
      Inr [product2, product3]"
    unfolding filter_subsequence
    by (simp add: sample_rows_def name py_float_Product1 py_float_Product2 py_float_Product3)
  have name_lt: "apply_filter sample_rows ''name'' ''<'' ''Product2'' = Inr [product1]"
    unfolding filter_subsequence
    by (simp add: sample_rows_def name py_float_Product1 py_float_Product2 py_float_Product3)
  from gt lt nine_gt nine_lt lex name_eq name_gt name_lt show ?thesis by (simp only: simp_thms)
qed

text \<open>
  Claim C9. Filtering is idempotent: when the filter returns a list of rows, filtering
  that list again with the same column, operator and literal returns the same list.
\<close>

theorem filter_idempotent:
  assumes "apply_filter rows column operator val = Inr out"
  shows "apply_filter out column operator val = Inr out"
proof (cases "operators operator")
  case None
  with assms show ?thesis by (simp add: apply_filter_def)
next
  case (Some f)
  let ?ok = "\<lambda>row. \<exists>cell b. row column = Some cell \<and>
    f (try_convert cell) (try_convert val) = Inr b"
  let ?P = "\<lambda>row. \<exists>cell. row column = Some cell \<and>
    f (try_convert cell) (try_convert val) = Inr True"
  from assms Some have ok: "\<forall>row \<in> set rows. ?ok row" and out: "out = filter ?P rows"
    using filter_loop_Inr [of f column val rows "[]" out] by (simp_all add: apply_filter_def)
  from ok out have "\<forall>row \<in> set out. ?ok row" by simp
  moreover from out have "out = filter ?P out" by simp
  ultimately show ?thesis
    using Some filter_loop_Inr [of f column val out "[]" out] by (simp add: apply_filter_def)
qed

theorem filter_idempotent_witness:
  "apply_filter sample_rows ''price'' ''>'' ''150'' = Inr [product2, product3] \<and>
   apply_filter [product2, product3] ''price'' ''>'' ''150'' = Inr [product2, product3]"
  using filter_idempotent [OF sample_price_gt_150] sample_price_gt_150 by simp

text \<open>
  Claim C8, as the code has it. When a row lacks the column the filter never returns a
  list. It raises \<^verbatim>\<open>KeyError\<close> for the column when the operator is in the table and every
  earlier row has the column and compares with the literal without an exception: the
  rows are visited in order and the first exception ends the loop.
\<close>

theorem filter_unknown_column:
  assumes "row column = None"
  shows "apply_filter (pre @ row # post) column operator val \<noteq> Inr out \<and>
    (operators operator = Some op_func \<and>
     (\<forall>r \<in> set pre. \<exists>cell b. r column = Some cell \<and>
        op_func (try_convert cell) (try_convert val) = Inr b) \<longrightarrow>
     apply_filter (pre @ row # post) column operator val = Inl (KeyError column))"
proof (cases "operators operator")
  case None
  then show ?thesis by (simp add: apply_filter_def)
next
  case (Some f)
  have "filter_loop f column val (pre @ row # post) [] \<noteq> Inr out"
    using filter_loop_Inr [of f column val "pre @ row # post" "[]" out] assms by auto
  moreover have "filter_loop f column val (pre @ row # post) [] = Inl (KeyError column)"
    if "\<forall>r \<in> set pre. \<exists>cell b. r column = Some cell \<and>
        f (try_convert cell) (try_convert val) = Inr b"
    using filter_loop_first_error [where pre = pre and f = f and c = column and v = val
        and rows = "row # post" and acc = "[]"] that assms by simp
  ultimately show ?thesis using Some by (auto simp: apply_filter_def)
qed

theorem filter_unknown_column_witness:
  "product2 ''cost'' = None \<and> operators ''='' = Some py_eq \<and>
   apply_filter sample_rows ''cost'' ''='' ''100'' = Inl (KeyError ''cost'') \<and>
   apply_filter ([product1] @ [''name'' \<mapsto> ''Product2''] # [product3]) ''price'' ''>'' ''150''
     = Inl (KeyError ''price'')"
proof -
  have op: "operators ''='' = Some py_eq" by (simp add: operators_def)
  have gt: "operators ''>'' = Some py_gt" by (simp add: operators_def)
  have none: "product1 ''cost'' = None" by (simp add: product1_def)
  have none2: "product2 ''cost'' = None" by (simp add: product2_def)
  have a: "apply_filter sample_rows ''cost'' ''='' ''100'' = Inl (KeyError ''cost'')"
    using filter_unknown_column [where row = product1 and column = "''cost''" and pre = "[]"
        and post = "[product2, product3]" and operator = "''=''" and val = "''100''"
        and op_func = py_eq] op none
    by (simp add: sample_rows_def)
  have r2: "[''name'' \<mapsto> ''Product2''] ''price'' = None" by simp
  have p1: "\<forall>r \<in> set [product1]. \<exists>cell b. r ''price'' = Some cell \<and>
        py_gt (try_convert cell) (try_convert ''150'') = Inr b"
    by (simp add: product1_def try_convert_def py_float_100 py_float_150)
  have b: "apply_filter ([product1] @ [''name'' \<mapsto> ''Product2''] # [product3]) ''price'' ''>'' ''150''
     = Inl (KeyError ''price'')"
    using filter_unknown_column [where row = "[''name'' \<mapsto> ''Product2'']"
        and column = "''price''" and pre = "[product1]" and post = "[product3]"
        and operator = "''>''" and val = "''150''" and op_func = py_gt] gt p1 r2
    by blast
  from none2 op a b show ?thesis by blast
qed

text \<open>
  The claim as stated fails: the second row lacks column \<open>a\<close>, but the first row holds the
  text \<open>x\<close>, whose comparison by \<open>>\<close> with the number \<open>1\<close> raises \<^verbatim>\<open>TypeError\<close> first.
\<close>

theorem filter_type_error_before_unknown_column:
  "[''b'' \<mapsto> ''1''] ''a'' = None \<and>
   apply_filter [[''a'' \<mapsto> ''x''], [''b'' \<mapsto> ''1'']] ''a'' ''>'' ''1'' = Inl TypeError"
  by (simp add: apply_filter_def operators_def try_convert_def py_float_x py_float_1)

lemma try_convert_cases:
  "py_float s = Some x \<Longrightarrow> try_convert s = Num x"
  "py_float s = None \<Longrightarrow> try_convert s = Str s"
  by (simp_all add: try_convert_def)

text \<open>
  Claim C6. When exactly one of the cell and the literal parses as a float, the two coerced
  values are a number and a text: \<open>=\<close> finds them unequal, so the row is never kept, and
  \<open><\<close> and \<open>>\<close> raise \<^verbatim>\<open>TypeError\<close>, so a filter over a list holding such a row returns no
  list.
\<close>

theorem mismatched_types_comparison:
  assumes "row column = Some cell" and "(py_float cell = None) \<noteq> (py_float val = None)"
  shows "py_eq (try_convert cell) (try_convert val) = Inr False \<and>
    py_lt (try_convert cell) (try_convert val) = Inl TypeError \<and>
    py_gt (try_convert cell) (try_convert val) = Inl TypeError \<and>
    apply_filter [row] column ''='' val = Inr [] \<and>
    apply_filter [row] column ''<'' val = Inl TypeError \<and>
    apply_filter [row] column ''>'' val = Inl TypeError \<and>
    (row \<in> set rows \<longrightarrow>
       (\<forall>out. apply_filter rows column ''='' val = Inr out \<longrightarrow> row \<notin> set out) \<and>
       (\<forall>out. apply_filter rows column ''<'' val \<noteq> Inr out) \<and>
       (\<forall>out. apply_filter rows column ''>'' val \<noteq> Inr out))"
proof -
  from assms(2) consider
      x where "py_float cell = Some x" "py_float val = None"
    | y where "py_float cell = None" "py_float val = Some y"
    by (cases "py_float cell"; cases "py_float val") auto
  then have cmp: "py_eq (try_convert cell) (try_convert val) = Inr False \<and>
    py_lt (try_convert cell) (try_convert val) = Inl TypeError \<and>
    py_gt (try_convert cell) (try_convert val) = Inl TypeError"
    by cases (simp_all add: try_convert_cases)
  have ops: "operators ''='' = Some py_eq" "operators ''<'' = Some py_lt"
    "operators ''>'' = Some py_gt" by (simp_all add: operators_def)
  from cmp assms(1) ops have single: "apply_filter [row] column ''='' val = Inr []"
    "apply_filter [row] column ''<'' val = Inl TypeError"
    "apply_filter [row] column ''>'' val = Inl TypeError"
    by (simp_all add: apply_filter_def)
  have many: "(\<forall>out. apply_filter rows column ''='' val = Inr out \<longrightarrow> row \<notin> set out) \<and>
       (\<forall>out. apply_filter rows column ''<'' val \<noteq> Inr out) \<and>
       (\<forall>out. apply_filter rows column ''>'' val \<noteq> Inr out)" if "row \<in> set rows"
  proof (intro conjI allI impI)
    fix out assume "apply_filter rows column ''='' val = Inr out"
    with ops(1) have "out = filter (\<lambda>row. \<exists>cell. row column = Some cell \<and>
        py_eq (try_convert cell) (try_convert val) = Inr True) rows"
      using filter_loop_Inr [of py_eq column val rows "[]" out] by (simp add: apply_filter_def)
    with cmp assms(1) show "row \<notin> set out" by auto
  next
    fix out
    show "apply_filter rows column ''<'' val \<noteq> Inr out"
      using filter_loop_Inr [of py_lt column val rows "[]" out] ops(2) that cmp assms(1)
      by (auto simp: apply_filter_def)
  next
    fix out
    show "apply_filter rows column ''>'' val \<noteq> Inr out"
      using filter_loop_Inr [of py_gt column val rows "[]" out] ops(3) that cmp assms(1)
      by (auto simp: apply_filter_def)
  qed
  from cmp single many show ?thesis by blast
qed

theorem mismatched_types_comparison_witness:
  "product1 ''name'' = Some ''Product1'' \<and> py_float ''Product1'' = None \<and>
   py_float ''100'' = Some (Finite False 7036874417766400 (- 46)) \<and>
   py_eq (Str ''Product1'') (Num (Finite False 7036874417766400 (- 46))) = Inr False \<and>
   apply_filter [product1] ''name'' ''='' ''100'' = Inr [] \<and>
   apply_filter [product1] ''name'' ''<'' ''100'' = Inl TypeError \<and>
   apply_filter [product1] ''name'' ''>'' ''100'' = Inl TypeError"
proof -
  have cell: "product1 ''name'' = Some ''Product1''" by (simp add: product1_def)
  have mis: "(py_float ''Product1'' = None) \<noteq> (py_float ''100'' = None)"
    by (simp add: py_float_Product1 py_float_100)
  from mismatched_types_comparison [where row = product1 and column = "''name''"
      and cell = "''Product1''" and val = "''100''" and rows = "[]"] cell mis
  show ?thesis by (simp add: py_float_Product1 py_float_100)
qed

text \<open>
  Claim C10. Under \<open>=\<close> the filter returns whenever every row has the column, and a row
  whose cell parses as a float is kept, against a literal that parses as a float, exactly
  when the two floats are equal as numbers; the texts are not compared. The cell \<open>100\<close>
  is kept by the literal \<open>100.0\<close>.
\<close>

theorem filter_equality_is_numeric:
  assumes "\<forall>r \<in> set rows. r column \<noteq> None"
  shows "\<exists>out. apply_filter rows column ''='' val = Inr out \<and>
    (\<forall>row cell x y. row \<in> set rows \<and> row column = Some cell \<and>
        py_float cell = Some x \<and> py_float val = Some y \<longrightarrow>
        (row \<in> set out \<longleftrightarrow> float_eq x y))"
proof -
  let ?P = "\<lambda>row. \<exists>cell. row column = Some cell \<and>
        py_eq (try_convert cell) (try_convert val) = Inr True"
  have total: "\<exists>b. py_eq u v = Inr b" for u v by (cases u; cases v) auto
  from assms have "\<forall>row \<in> set rows. \<exists>cell b. row column = Some cell \<and>
        py_eq (try_convert cell) (try_convert val) = Inr b"
    using total by fastforce
  then have run: "apply_filter rows column ''='' val = Inr (filter ?P rows)"
    using filter_loop_Inr [of py_eq column val rows "[]" "filter ?P rows"]
    by (simp add: apply_filter_def operators_def)
  have "row \<in> set (filter ?P rows) \<longleftrightarrow> float_eq x y"
    if "row \<in> set rows" "row column = Some cell" "py_float cell = Some x" "py_float val = Some y"
    for row cell x y
    using that by (simp add: try_convert_cases)
  with run show ?thesis by blast
qed

theorem filter_equality_is_numeric_witness:
  "''100'' \<noteq> ''100.0'' \<and>
   py_float ''100'' = Some (Finite False 7036874417766400 (- 46)) \<and>
   py_float ''100.0'' = Some (Finite False 7036874417766400 (- 46)) \<and>
   float_eq (Finite False 7036874417766400 (- 46)) (Finite False 7036874417766400 (- 46)) \<and>
   apply_filter sample_rows ''price'' ''='' ''100.0'' = Inr [product1]"
proof -
  have cols: "\<forall>r \<in> set sample_rows. r ''price'' \<noteq> None"
    by (simp add: sample_rows_def product1_def product2_def product3_def)
  have c1: "product1 ''price'' = Some ''100''" by (simp add: product1_def)
  have c2: "product2 ''price'' = Some ''200''" by (simp add: product2_def)
  have c3: "product3 ''price'' = Some ''300''" by (simp add: product3_def)
  have run: "apply_filter sample_rows ''price'' ''='' ''100.0'' = Inr [product1]"
    by (simp add: apply_filter_def operators_def sample_rows_def c1 c2 c3 try_convert_def
        py_float_100 py_float_100_0 py_float_200 py_float_300 aligned_def signed_def)
  from filter_equality_is_numeric [OF cols, of "''100.0''"] run
  have "product1 \<in> set [product1] \<longleftrightarrow>
    float_eq (Finite False 7036874417766400 (- 46)) (Finite False 7036874417766400 (- 46))"
    using c1 py_float_100 py_float_100_0 by (auto simp: sample_rows_def)
  with run py_float_100 py_float_100_0 show ?thesis by simp
qed

section \<open>The order of floats\<close>

text \<open>
  \<^verbatim>\<open><\<close> on floats is a strict order, and two floats other than NaN are always
  comparable. Two finite floats can be compared at any exponent below both of theirs.
\<close>

lemma aligned_rebase:
  assumes "b \<le> c" "c \<le> e"
  shows "aligned s m e b = aligned s m e c * 2 ^ nat (c - b)"
proof -
  from assms have "nat (e - b) = nat (e - c) + nat (c - b)" by simp
  then show ?thesis by (simp add: aligned_def power_add)
qed

lemma float_lt_Finite_base:
  assumes "b \<le> e1" "b \<le> e2"
  shows "float_lt (Finite s1 m1 e1) (Finite s2 m2 e2) \<longleftrightarrow>
    aligned s1 m1 e1 b < aligned s2 m2 e2 b"
proof -
  let ?c = "min e1 e2"
  from assms have bc: "b \<le> ?c" "?c \<le> e1" "?c \<le> e2" by simp_all
  have pos: "(0::int) < 2 ^ nat (?c - b)" by simp
  show ?thesis
    unfolding float_lt.simps aligned_rebase [OF bc(1,2)] aligned_rebase [OF bc(1,3)]
    using pos by (simp only: mult_less_cancel_right_pos)
qed

lemma float_lt_trans:
  assumes "float_lt x y" "float_lt y z"
  shows "float_lt x z"
proof (cases x; cases y; cases z)
  fix s1 m1 e1 s2 m2 e2 s3 m3 e3
  assume x: "x = Finite s1 m1 e1" and y: "y = Finite s2 m2 e2" and z: "z = Finite s3 m3 e3"
  let ?b = "min e1 (min e2 e3)"
  have b: "?b \<le> e1" "?b \<le> e2" "?b \<le> e3" by simp_all
  from assms show ?thesis
    unfolding x y z float_lt_Finite_base [OF b(1,2)] float_lt_Finite_base [OF b(2,3)]
      float_lt_Finite_base [OF b(1,3)]
    by (rule less_trans)
qed (use assms in auto)

lemma float_trichotomy:
  assumes "x \<noteq> NaN" "y \<noteq> NaN"
  shows "float_lt x y \<or> float_eq x y \<or> float_lt y x"
  using assms by (cases x; cases y) (auto simp: min.commute)

lemma float_lt_irrefl: "\<not> float_lt x x"
  by (cases x) simp_all

lemma float_lt_asym: "float_lt x y \<Longrightarrow> \<not> float_lt y x"
  using float_lt_trans [of x y x] float_lt_irrefl [of x] by blast

section \<open>Properties of the aggregator\<close>

text \<open>
  Claim C3. Aggregating the empty row list fails for each of the three operations, under
  either interpreter version: \<^verbatim>\<open>avg\<close> divides by the length zero and raises
  \<^verbatim>\<open>ZeroDivisionError\<close>, \<^verbatim>\<open>min\<close> and \<^verbatim>\<open>max\<close> raise the \<^verbatim>\<open>ValueError\<close> of the built-in for an
  empty argument. No value is returned.
\<close>

theorem aggregate_empty_fails:
  "apply_aggregation ver [] column ''avg'' = Inl ZeroDivisionError \<and>
   apply_aggregation ver [] column ''min'' = Inl (ValueError (empty_message ver ''min'')) \<and>
   apply_aggregation ver [] column ''max'' = Inl (ValueError (empty_message ver ''max''))"
  by (simp add: apply_aggregation_def operations_def avg_def)

lemma float_column_prefix:
  "\<forall>r \<in> set pre. \<exists>cell f. r column = Some cell \<and> py_float cell = Some f \<Longrightarrow>
   float_column column (pre @ rows) = Inl e \<longleftrightarrow> float_column column rows = Inl e"
proof (induction pre)
  case Nil
  then show ?case by simp
next
  case (Cons r pre)
  from Cons.prems obtain cell f where "r column = Some cell" "py_float cell = Some f" by auto
  moreover from Cons have "float_column column (pre @ rows) = Inl e \<longleftrightarrow>
    float_column column rows = Inl e" by simp
  ultimately show ?case by (auto split: sum.splits)
qed

text \<open>
  Claim C7, as the code has it. For an operation of the \<^verbatim>\<open>operations\<close> table, when a row's
  cell at the column does not parse as a float and every earlier row has a cell at the
  column that parses, the aggregation raises the non-numeric-column \<^verbatim>\<open>ValueError\<close>.
\<close>

theorem aggregate_non_numeric:
  assumes "operations ver operation = Some f"
    and "\<forall>r \<in> set pre. \<exists>cell x. r column = Some cell \<and> py_float cell = Some x"
    and "row column = Some cell" and "py_float cell = None"
  shows "apply_aggregation ver (pre @ row # post) column operation =
    Inl (ValueError (''Cannot aggregate non-numeric column: '' @ column))"
proof -
  from assms(3,4) have "float_column column (row # post) =
    Inl (ValueError (''Cannot aggregate non-numeric column: '' @ column))" by simp
  with float_column_prefix [OF assms(2)] have "float_column column (pre @ row # post) =
    Inl (ValueError (''Cannot aggregate non-numeric column: '' @ column))" by blast
  with assms(1) show ?thesis by (simp add: apply_aggregation_def)
qed

theorem aggregate_non_numeric_witness:
  "operations Before_3_12 ''avg'' = Some (avg Before_3_12) \<and>
   product1 ''name'' = Some ''Product1'' \<and> py_float ''Product1'' = None \<and>
   apply_aggregation Before_3_12 sample_rows ''name'' ''avg'' =
     Inl (ValueError ''Cannot aggregate non-numeric column: name'')"
proof -
  have op: "operations Before_3_12 ''avg'' = Some (avg Before_3_12)"
    by (simp add: operations_def)
  have pre: "\<forall>r \<in> set []. \<exists>cell x. r ''name'' = Some cell \<and> py_float cell = Some x" by simp
  have cell: "product1 ''name'' = Some ''Product1''" by (simp add: product1_def)
  from aggregate_non_numeric [where ver = Before_3_12 and operation = "''avg''"
      and f = "avg Before_3_12" and pre = "[]"
      and column = "''name''" and row = product1 and cell = "''Product1''"
      and post = "[product2, product3]"] op pre cell py_float_Product1
  have "apply_aggregation Before_3_12 sample_rows ''name'' ''avg'' =
     Inl (ValueError ''Cannot aggregate non-numeric column: name'')"
    by (simp add: sample_rows_def)
  with op cell py_float_Product1 show ?thesis by simp
qed

text \<open>
  The claim as stated fails: the cell \<open>x\<close> of the second row does not parse, but the
  first row has no column \<open>a\<close>, and its \<^verbatim>\<open>KeyError\<close> is raised first and is not caught.
\<close>

theorem aggregate_key_error_first:
  "[''a'' \<mapsto> ''x''] ''a'' = Some ''x'' \<and> py_float ''x'' = None \<and>
   apply_aggregation Before_3_12 [[''b'' \<mapsto> ''1''], [''a'' \<mapsto> ''x'']] ''a'' ''avg'' =
     Inl (KeyError ''a'') \<and>
   apply_aggregation Since_3_12 [[''b'' \<mapsto> ''1''], [''a'' \<mapsto> ''x'']] ''a'' ''avg'' =
     Inl (KeyError ''a'')"
  by (simp add: py_float_x apply_aggregation_def operations_def)

text \<open>
  The fold of \<^verbatim>\<open>min\<close> ends on an element that no element is smaller than, the fold of
  \<^verbatim>\<open>max\<close> on one that no element is greater than.
\<close>

lemma min_fold:
  fixes v vs
  defines "r \<equiv> foldl (\<lambda>m item. if float_lt item m then item else m) v vs"
  shows "r \<in> set (v # vs) \<and> (r = v \<or> float_lt r v) \<and> (\<forall>u \<in> set vs. \<not> float_lt u r)"
  unfolding r_def
proof (induction vs arbitrary: v)
  case Nil
  then show ?case by simp
next
  case (Cons x xs)
  let ?v' = "if float_lt x v then x else v"
  let ?r = "foldl (\<lambda>m item. if float_lt item m then item else m) ?v' xs"
  from Cons.IH [of ?v'] have mem: "?r \<in> set (?v' # xs)"
    and le: "?r = ?v' \<or> float_lt ?r ?v'"
    and rest: "\<forall>u \<in> set xs. \<not> float_lt u ?r" by blast+
  have r: "foldl (\<lambda>m item. if float_lt item m then item else m) v (x # xs) = ?r" by simp
  from mem have "?r \<in> set (v # x # xs)" by (auto split: if_splits)
  moreover from le have "?r = v \<or> float_lt ?r v"
    using float_lt_trans [of ?r x v] by (auto split: if_splits)
  moreover from le have "\<not> float_lt x ?r"
    using float_lt_trans [of x ?r v] float_lt_irrefl [of x] float_lt_asym [of ?r x]
    by (auto split: if_splits)
  ultimately show ?case using rest unfolding r by simp
qed

lemma max_fold:
  fixes v vs
  defines "r \<equiv> foldl (\<lambda>m item. if float_lt m item then item else m) v vs"
  shows "r \<in> set (v # vs) \<and> (r = v \<or> float_lt v r) \<and> (\<forall>u \<in> set vs. \<not> float_lt r u)"
  unfolding r_def
proof (induction vs arbitrary: v)
  case Nil
  then show ?case by simp
next
  case (Cons x xs)
  let ?v' = "if float_lt v x then x else v"
  let ?r = "foldl (\<lambda>m item. if float_lt m item then item else m) ?v' xs"
  from Cons.IH [of ?v'] have mem: "?r \<in> set (?v' # xs)"
    and ge: "?r = ?v' \<or> float_lt ?v' ?r"
    and rest: "\<forall>u \<in> set xs. \<not> float_lt ?r u" by blast+
  have r: "foldl (\<lambda>m item. if float_lt m item then item else m) v (x # xs) = ?r" by simp
  from mem have "?r \<in> set (v # x # xs)" by (auto split: if_splits)
  moreover from ge have "?r = v \<or> float_lt v ?r"
    using float_lt_trans [of v x ?r] by (auto split: if_splits)
  moreover from ge have "\<not> float_lt ?r x"
    using float_lt_trans [of v ?r x] float_lt_irrefl [of x] float_lt_asym [of x ?r]
    by (auto split: if_splits)
  ultimately show ?case using rest unfolding r by simp
qed

lemma py_min_least:
  assumes "vals \<noteq> []" "NaN \<notin> set vals"
  shows "\<exists>m \<in> set vals. py_min ver vals = Inr m \<and>
    (\<forall>v \<in> set vals. float_lt m v \<or> float_eq m v)"
proof -
  from assms(1) obtain v vs where vals: "vals = v # vs" by (cases vals) auto
  let ?r = "foldl (\<lambda>m item. if float_lt item m then item else m) v vs"
  from min_fold [of v vs] have mem: "?r \<in> set (v # vs)"
    and first: "?r = v \<or> float_lt ?r v" and rest: "\<forall>u \<in> set vs. \<not> float_lt u ?r" by blast+
  from mem assms(2) vals have rn: "?r \<noteq> NaN" by auto
  have "float_lt ?r u \<or> float_eq ?r u" if "u \<in> set (v # vs)" for u
  proof -
    from that assms(2) vals have un: "u \<noteq> NaN" by auto
    from that first rest have "\<not> float_lt u ?r"
      using float_lt_irrefl [of v] float_lt_asym [of ?r v] by auto
    with float_trichotomy [OF rn un] show ?thesis by blast
  qed
  with mem vals show ?thesis by auto
qed

lemma py_max_greatest:
  assumes "vals \<noteq> []" "NaN \<notin> set vals"
  shows "\<exists>m \<in> set vals. py_max ver vals = Inr m \<and>
    (\<forall>v \<in> set vals. float_gt m v \<or> float_eq m v)"
proof -
  from assms(1) obtain v vs where vals: "vals = v # vs" by (cases vals) auto
  let ?r = "foldl (\<lambda>m item. if float_lt m item then item else m) v vs"
  have pm: "py_max ver (v # vs) = Inr ?r" by (simp add: float_gt_def)
  from max_fold [of v vs] have mem: "?r \<in> set (v # vs)"
    and first: "?r = v \<or> float_lt v ?r" and rest: "\<forall>u \<in> set vs. \<not> float_lt ?r u" by blast+
  from mem assms(2) vals have rn: "?r \<noteq> NaN" by auto
  have "float_gt ?r u \<or> float_eq ?r u" if "u \<in> set (v # vs)" for u
  proof -
    from that assms(2) vals have un: "u \<noteq> NaN" by auto
    from that first rest have "\<not> float_lt ?r u"
      using float_lt_irrefl [of v] float_lt_asym [of v ?r] by auto
    with float_trichotomy [OF rn un] show ?thesis by (auto simp: float_gt_def)
  qed
  with mem vals pm show ?thesis by (auto simp del: py_max.simps)
qed

lemma float_column_parsed:
  "list_all2 (\<lambda>row x. \<exists>cell. row column = Some cell \<and> py_float cell = Some x) rows vals \<Longrightarrow>
   float_column column rows = Inr vals"
  by (induction rows vals rule: list_all2_induct) auto

lemma sample_ratings:
  "list_all2 (\<lambda>row x. \<exists>cell. row ''rating'' = Some cell \<and> py_float cell = Some x) sample_rows
     [Finite False 5066549580791808 (- 50), Finite False 5404319552844595 (- 50),
      Finite False 4728779608739021 (- 50)]"
  by (simp add: sample_rows_def product1_def product2_def product3_def
      py_float_4_5 py_float_4_8 py_float_4_2)

text \<open>
  Claim C4, as the code has it. For a non-empty row list whose cells at the column all
  parse, to the floats \<open>vals\<close>: \<^verbatim>\<open>avg\<close> returns the float quotient of \<^verbatim>\<open>sum(vals)\<close>, the
  float sum the interpreter computes, by their count; when no value is NaN, \<^verbatim>\<open>min\<close>
  returns a value that is less than or equal to every value and \<^verbatim>\<open>max\<close> one that is
  greater than or equal to every value. Sum, quotient and comparisons are on the
  unrounded floats, and \<^verbatim>\<open>round(_, 2)\<close> is applied to the result only. On the ratings 4.5,
  4.8 and 4.2 of the test suite the average is the float 4.5 under either version of
  \<^verbatim>\<open>sum\<close>, the minimum 4.2 and the maximum 4.8.
\<close>

theorem aggregate_float_statistics:
  assumes "rows \<noteq> []"
    and "list_all2 (\<lambda>row x. \<exists>cell. row column = Some cell \<and> py_float cell = Some x) rows vals"
  shows "apply_aggregation ver rows column ''avg'' =
      Inr \<lparr>res_operation = ''avg'', res_column = column,
           res_value = round2 (float_div (py_sum ver vals) (float_of_nat (length vals)))\<rparr> \<and>
    (NaN \<notin> set vals \<longrightarrow>
      (\<exists>m \<in> set vals. (\<forall>v \<in> set vals. float_lt m v \<or> float_eq m v) \<and>
         apply_aggregation ver rows column ''min'' =
           Inr \<lparr>res_operation = ''min'', res_column = column, res_value = round2 m\<rparr>) \<and>
      (\<exists>m \<in> set vals. (\<forall>v \<in> set vals. float_gt m v \<or> float_eq m v) \<and>
         apply_aggregation ver rows column ''max'' =
           Inr \<lparr>res_operation = ''max'', res_column = column, res_value = round2 m\<rparr>))"
proof -
  from assms(2) have col: "float_column column rows = Inr vals" by (rule float_column_parsed)
  from assms have ne: "vals \<noteq> []" by (auto dest: list_all2_lengthD)
  have "apply_aggregation ver rows column ''avg'' =
      Inr \<lparr>res_operation = ''avg'', res_column = column,
           res_value = round2 (float_div (py_sum ver vals) (float_of_nat (length vals)))\<rparr>"
    using col ne by (simp add: apply_aggregation_def operations_def avg_def)
  moreover have "\<exists>m \<in> set vals. (\<forall>v \<in> set vals. float_lt m v \<or> float_eq m v) \<and>
         apply_aggregation ver rows column ''min'' =
           Inr \<lparr>res_operation = ''min'', res_column = column, res_value = round2 m\<rparr>"
    if "NaN \<notin> set vals"
    using py_min_least [OF ne that, of ver] col
    by (auto simp: apply_aggregation_def operations_def)
  moreover have "\<exists>m \<in> set vals. (\<forall>v \<in> set vals. float_gt m v \<or> float_eq m v) \<and>
         apply_aggregation ver rows column ''max'' =
           Inr \<lparr>res_operation = ''max'', res_column = column, res_value = round2 m\<rparr>"
    if "NaN \<notin> set vals"
    using py_max_greatest [OF ne that, of ver] col
    by (auto simp: apply_aggregation_def operations_def)
  ultimately show ?thesis by blast
qed

theorem aggregate_float_statistics_witness:
  "sample_rows \<noteq> [] \<and>
   py_float ''4.5'' = Some (Finite False 5066549580791808 (- 50)) \<and>
   apply_aggregation Before_3_12 sample_rows ''rating'' ''avg'' =
     Inr \<lparr>res_operation = ''avg'', res_column = ''rating'',
          res_value = Finite False 5066549580791808 (- 50)\<rparr> \<and>
   apply_aggregation Since_3_12 sample_rows ''rating'' ''avg'' =
     Inr \<lparr>res_operation = ''avg'', res_column = ''rating'',
          res_value = Finite False 5066549580791808 (- 50)\<rparr> \<and>
   py_float ''4.2'' = Some (Finite False 4728779608739021 (- 50)) \<and>
   apply_aggregation Since_3_12 sample_rows ''rating'' ''min'' =
     Inr \<lparr>res_operation = ''min'', res_column = ''rating'',
          res_value = Finite False 4728779608739021 (- 50)\<rparr> \<and>
   py_float ''4.8'' = Some (Finite False 5404319552844595 (- 50)) \<and>
   apply_aggregation Since_3_12 sample_rows ''rating'' ''max'' =
     Inr \<lparr>res_operation = ''max'', res_column = ''rating'',
          res_value = Finite False 5404319552844595 (- 50)\<rparr>"
proof -
  let ?vals = "[Finite False 5066549580791808 (- 50), Finite False 5404319552844595 (- 50),
      Finite False 4728779608739021 (- 50)]"
  have ne: "sample_rows \<noteq> []" by (simp add: sample_rows_def)
  note old = aggregate_float_statistics [OF ne sample_ratings, of Before_3_12]
  note new = aggregate_float_statistics [OF ne sample_ratings, of Since_3_12]
  have nan: "NaN \<notin> set ?vals" by simp
  have len: "float_of_nat (length ?vals) = Finite False 6755399441055744 (- 51)"
  proof -
    have "length ?vals = 3" by simp
    then show ?thesis by (simp only: float_of_nat_3)
  qed
  from old have "apply_aggregation Before_3_12 sample_rows ''rating'' ''avg'' =
      Inr \<lparr>res_operation = ''avg'', res_column = ''rating'',
           res_value = round2 (float_div (py_sum Before_3_12 ?vals)
             (float_of_nat (length ?vals)))\<rparr>" by blast
  then have avg_old: "apply_aggregation Before_3_12 sample_rows ''rating'' ''avg'' =
     Inr \<lparr>res_operation = ''avg'', res_column = ''rating'',
          res_value = Finite False 5066549580791808 (- 50)\<rparr>"
    by (simp only: ratings_plain_sum len div_13_5_3 round2_4_5)
  from new have "apply_aggregation Since_3_12 sample_rows ''rating'' ''avg'' =
      Inr \<lparr>res_operation = ''avg'', res_column = ''rating'',
           res_value = round2 (float_div (py_sum Since_3_12 ?vals)
             (float_of_nat (length ?vals)))\<rparr>" by blast
  then have avg_new: "apply_aggregation Since_3_12 sample_rows ''rating'' ''avg'' =
     Inr \<lparr>res_operation = ''avg'', res_column = ''rating'',
          res_value = Finite False 5066549580791808 (- 50)\<rparr>"
    by (simp only: ratings_compensated_sum len div_13_5_3 round2_4_5)
  from new nan obtain m where m: "m \<in> set ?vals"
    "\<forall>v \<in> set ?vals. float_lt m v \<or> float_eq m v"
    "apply_aggregation Since_3_12 sample_rows ''rating'' ''min'' =
       Inr \<lparr>res_operation = ''min'', res_column = ''rating'', res_value = round2 m\<rparr>"
    by blast
  from m(1,2) have "m = Finite False 4728779608739021 (- 50)"
    by (auto simp: aligned_def signed_def)
  with m(3) have mn: "apply_aggregation Since_3_12 sample_rows ''rating'' ''min'' =
     Inr \<lparr>res_operation = ''min'', res_column = ''rating'',
          res_value = Finite False 4728779608739021 (- 50)\<rparr>"
    by (simp add: round2_4_2 del: round2.simps)
  from new nan obtain k where k: "k \<in> set ?vals"
    "\<forall>v \<in> set ?vals. float_gt k v \<or> float_eq k v"
    "apply_aggregation Since_3_12 sample_rows ''rating'' ''max'' =
       Inr \<lparr>res_operation = ''max'', res_column = ''rating'', res_value = round2 k\<rparr>"
    by blast
  from k(1,2) have "k = Finite False 5404319552844595 (- 50)"
    by (auto simp: aligned_def signed_def float_gt_def)
  with k(3) have mx: "apply_aggregation Since_3_12 sample_rows ''rating'' ''max'' =
     Inr \<lparr>res_operation = ''max'', res_column = ''rating'',
          res_value = Finite False 5404319552844595 (- 50)\<rparr>"
    by (simp add: round2_4_8 del: round2.simps)
  from ne avg_old avg_new mn mx py_float_4_5 py_float_4_2 py_float_4_8 show ?thesis by blast
qed

text \<open>
  The claim as stated fails: float addition overflows, so under either version of \<^verbatim>\<open>sum\<close>
  the average of the finite number \<open>1e308\<close> with itself is infinite and not \<open>1e308\<close>; and
  \<^verbatim>\<open>min\<close> keeps a leading NaN, which is no minimum.
\<close>

theorem aggregate_overflow_and_nan:
  "py_float ''1e308'' = Some (Finite False 5010420900022432 971) \<and>
   apply_aggregation Before_3_12 [[''v'' \<mapsto> ''1e308''], [''v'' \<mapsto> ''1e308'']] ''v'' ''avg'' =
     Inr \<lparr>res_operation = ''avg'', res_column = ''v'', res_value = Infinity False\<rparr> \<and>
   apply_aggregation Since_3_12 [[''v'' \<mapsto> ''1e308''], [''v'' \<mapsto> ''1e308'']] ''v'' ''avg'' =
     Inr \<lparr>res_operation = ''avg'', res_column = ''v'', res_value = Infinity False\<rparr> \<and>
   py_float ''nan'' = Some NaN \<and>
   py_float ''1'' = Some (Finite False 4503599627370496 (- 52)) \<and>
   apply_aggregation Since_3_12 [[''v'' \<mapsto> ''nan''], [''v'' \<mapsto> ''1'']] ''v'' ''min'' =
     Inr \<lparr>res_operation = ''min'', res_column = ''v'', res_value = NaN\<rparr>"
proof -
  let ?rows = "[[''v'' \<mapsto> ''1e308''], [''v'' \<mapsto> ''1e308'']]"
  let ?vals = "[Finite False 5010420900022432 971, Finite False 5010420900022432 971]"
  have col: "float_column ''v'' ?rows = Inr ?vals"
    by (simp add: py_float_1e308)
  have len: "float_of_nat (length ?vals) = Finite False 4503599627370496 (- 51)"
  proof -
    have "length ?vals = 2" by simp
    then show ?thesis by (simp only: float_of_nat_2)
  qed
  have quot: "round2 (float_div (Infinity False) (Finite False 4503599627370496 (- 51))) =
    Infinity False" by simp
  have old: "apply_aggregation Before_3_12 ?rows ''v'' ''avg'' =
     Inr \<lparr>res_operation = ''avg'', res_column = ''v'', res_value = Infinity False\<rparr>"
    using col overflow_plain_sum len quot
    by (simp add: apply_aggregation_def operations_def avg_def
        del: float_column.simps py_sum.simps list.size length_Cons)
  have new: "apply_aggregation Since_3_12 ?rows ''v'' ''avg'' =
     Inr \<lparr>res_operation = ''avg'', res_column = ''v'', res_value = Infinity False\<rparr>"
    using col overflow_compensated_sum len quot
    by (simp add: apply_aggregation_def operations_def avg_def
        del: float_column.simps py_sum.simps list.size length_Cons)
  have "apply_aggregation Since_3_12 [[''v'' \<mapsto> ''nan''], [''v'' \<mapsto> ''1'']] ''v'' ''min'' =
     Inr \<lparr>res_operation = ''min'', res_column = ''v'', res_value = NaN\<rparr>"
    by (simp add: apply_aggregation_def operations_def py_float_nan py_float_1)
  with old new show ?thesis using py_float_1e308 py_float_nan py_float_1 by blast
qed

end
